theory Spec2Isabelle
  imports Main
begin

section \<open>The world a nox session runs in\<close>

text \<open>
  \<^verbatim>\<open>noxfile.py\<close> defines nine nox sessions and one helper. A session body calls
  \<^verbatim>\<open>session.install\<close>, \<^verbatim>\<open>session.run\<close>, \<^verbatim>\<open>session.skip\<close>, reads
  \<^verbatim>\<open>os.environ\<close> and \<^verbatim>\<open>os.path.exists\<close>, and calls \<^verbatim>\<open>shutil.rmtree\<close>.
  Everything outside the file is an input of the model: the environment, the positional
  arguments, the file system, what every external command returns and does to the file
  system, and what a removal of a directory tree leaves of the file system.
\<close>

type_synonym filesystem = "string \<Rightarrow> bool"

record world =
  environ :: "string \<rightharpoonup> string"
  posargs :: "string list"
  files :: filesystem
  command :: "nat \<Rightarrow> string list \<Rightarrow> filesystem \<Rightarrow> int \<times> filesystem"
  removal :: "nat \<Rightarrow> string \<Rightarrow> filesystem \<Rightarrow> filesystem"

text \<open>
  \<open>command w n argv fs\<close> is the exit status of the external command \<open>argv\<close> started as
  the \<open>n\<close>-th effect of the session on the file system \<open>fs\<close>, with the file system it
  leaves behind. \<open>removal w n path fs\<close> is the file system that
  \<^verbatim>\<open>shutil.rmtree(path, ignore_errors=True)\<close> leaves behind when it is called as the
  \<open>n\<close>-th effect on \<open>fs\<close>: which paths it removes is up to the operating system (it
  removes nothing of a symbolic link, of a regular file or of a missing path, and keeps a
  directory that still holds an entry it could not remove), so nothing is assumed about it.

  The trace of a session is the list of its effects in order. An \<open>Install\<close> or \<open>Run\<close>
  event keeps the arguments of the call, the file system the command started on and its
  exit status; an \<open>Rmtree\<close> event keeps the path, the file system before the call and the
  file system the call left behind.
\<close>

datatype event =
    Install "string list" filesystem int
  | Run "string list" filesystem int
  | Rmtree string filesystem filesystem

fun is_install :: "event \<Rightarrow> bool" where
  "is_install (Install a f c) = True"
| "is_install (Run a f c) = False"
| "is_install (Rmtree p b l) = False"

fun is_run :: "event \<Rightarrow> bool" where
  "is_run (Install a f c) = False"
| "is_run (Run a f c) = True"
| "is_run (Rmtree p b l) = False"

fun argv :: "event \<Rightarrow> string list" where
  "argv (Install a f c) = a"
| "argv (Run a f c) = a"
| "argv (Rmtree p b l) = [p]"

fun status :: "event \<Rightarrow> int" where
  "status (Install a f c) = c"
| "status (Run a f c) = c"
| "status (Rmtree p b l) = 0"


record state =
  events :: "event list"
  filesystem :: filesystem

text \<open>
  The two exceptions that end a session body early: \<^verbatim>\<open>session.skip\<close> raises the
  first, a command with a non-zero exit status raises the second.
\<close>

datatype stop = SessionSkip string | CommandFailed

type_synonym stmt = "world \<Rightarrow> state \<Rightarrow> stop option \<times> state"

definition pass :: stmt where
  "pass w s = (None, s)"

definition seq :: "stmt \<Rightarrow> stmt \<Rightarrow> stmt" where
  "seq a b w s = (case a w s of (None, s') \<Rightarrow> b w s' | (Some e, s') \<Rightarrow> (Some e, s'))"

fun block :: "stmt list \<Rightarrow> stmt" where
  "block [] = pass"
| "block (a # as) = seq a (block as)"

definition py_if :: "bool \<Rightarrow> stmt \<Rightarrow> stmt" where
  "py_if c a = (if c then a else pass)"

definition for_each :: "'a list \<Rightarrow> ('a \<Rightarrow> stmt) \<Rightarrow> stmt" where
  "for_each xs body = block (map body xs)"

subsection \<open>The nox session object\<close>

text \<open>\<^verbatim>\<open>session.skip(msg)\<close> raises, so nothing after it is executed.\<close>

definition skip :: "string \<Rightarrow> stmt" where
  "skip msg w s = (Some (SessionSkip msg), s)"

definition external :: "(string list \<Rightarrow> filesystem \<Rightarrow> int \<Rightarrow> event) \<Rightarrow> string list \<Rightarrow> string list \<Rightarrow> stmt" where
  "external ev args cmdline w s =
     (case command w (length (events s)) cmdline (filesystem s) of
        (code, fs') \<Rightarrow>
          (if code = 0 then None else Some CommandFailed,
           s\<lparr>events := events s @ [ev args (filesystem s) code], filesystem := fs'\<rparr>))"

text \<open>
  \<^verbatim>\<open>session.run(*args)\<close>: the command line is \<open>args\<close>; an exit status other
  than 0 raises \<^verbatim>\<open>CommandFailed\<close>.
\<close>

definition run :: "string list \<Rightarrow> stmt" where
  "run args = external Run args args"

text \<open>
  \<^verbatim>\<open>session.install(*args)\<close>: nox runs pip on \<open>args\<close> through the same path as
  \<^verbatim>\<open>session.run\<close>, so a failing pip raises as well. The event keeps \<open>args\<close>; the
  command line handed to the world is pip's.
\<close>

definition install :: "string list \<Rightarrow> stmt" where
  "install args = external Install args ([''python'', ''-m'', ''pip'', ''install''] @ args)"

subsection \<open>The standard library\<close>

text \<open>\<^verbatim>\<open>os.environ.get(key, default)\<close>\<close>

definition environ_get :: "world \<Rightarrow> string \<Rightarrow> string \<Rightarrow> string" where
  "environ_get w key dflt = (case environ w key of None \<Rightarrow> dflt | Some v \<Rightarrow> v)"

text \<open>The truth value of a Python string: every string but the empty one is true.\<close>

definition truthy :: "string \<Rightarrow> bool" where
  "truthy v = (v \<noteq> [])"

text \<open>\<^verbatim>\<open>os.path.join(a, *p)\<close> of \<^verbatim>\<open>posixpath\<close>\<close>

fun os_path_join :: "string \<Rightarrow> string list \<Rightarrow> string" where
  "os_path_join path [] = path"
| "os_path_join path (b # p) =
     os_path_join
       (if b \<noteq> [] \<and> hd b = CHR ''/'' then b
        else if path = [] \<or> last path = CHR ''/'' then path @ b
        else path @ ''/'' @ b) p"

text \<open>\<^verbatim>\<open>os.path.exists(path)\<close>, read from the file system of the moment\<close>

definition os_path_exists :: "state \<Rightarrow> string \<Rightarrow> bool" where
  "os_path_exists s path = filesystem s path"

text \<open>A path is within a tree when it is the root or lies below it.\<close>

definition within :: "string \<Rightarrow> string \<Rightarrow> bool" where
  "within root p = (p = root \<or> take (Suc (length root)) p = root @ ''/'')"

text \<open>
  \<^verbatim>\<open>shutil.rmtree(path, ignore_errors=True)\<close>: every error of the removal is
  ignored, so the call never raises; the file system it leaves is the world's.
\<close>

definition rmtree_ignore_errors :: "string \<Rightarrow> stmt" where
  "rmtree_ignore_errors path w s =
     (let left = removal w (length (events s)) path (filesystem s)
      in (None,
          s\<lparr>events := events s @ [Rmtree path (filesystem s) left], filesystem := left\<rparr>))"

section \<open>noxfile.py\<close>

definition DEFAULT_PYTHON_VERSION :: string where
  "DEFAULT_PYTHON_VERSION = ''3.8''"

definition SYSTEM_TEST_PYTHON_VERSIONS :: "string list" where
  "SYSTEM_TEST_PYTHON_VERSIONS = [''2.7'', ''3.8'']"

definition UNIT_TEST_PYTHON_VERSIONS :: "string list" where
  "UNIT_TEST_PYTHON_VERSIONS = [''2.7'', ''3.5'', ''3.6'', ''3.7'', ''3.8'']"

definition LOCAL_DEPS :: "string list" where
  "LOCAL_DEPS = []"

definition lint :: stmt where
  "lint = block
     [install ([''flake8'', ''black''] @ LOCAL_DEPS),
      run [''black'', ''--check'', ''google'', ''tests'', ''docs''],
      run [''flake8'', ''google'', ''tests'']]"

definition blacken :: stmt where
  "blacken = block
     [install [''black''],
      run [''black'', ''google'', ''tests'', ''docs'']]"

definition lint_setup_py :: stmt where
  "lint_setup_py = block
     [install [''docutils'', ''pygments''],
      run [''python'', ''setup.py'', ''check'', ''--restructuredtext'', ''--strict'']]"

definition default_session :: stmt where
  "default_session w = block
     [install [''mock'', ''pytest'', ''pytest-cov''],
      for_each LOCAL_DEPS (\<lambda>local_dep. install [''-e'', local_dep]),
      install [''-e'', ''.''],
      run ([''py.test'', ''--quiet'', ''--cov=google.cloud'', ''--cov=tests.unit'',
            ''--cov-append'', ''--cov-config=.coveragerc'', ''--cov-report='',
            ''--cov-fail-under=0'', os_path_join ''tests'' [''unit'']] @ posargs w)] w"

definition unit :: stmt where
  "unit = default_session"

definition cover :: stmt where
  "cover = block
     [install [''coverage'', ''pytest-cov''],
      run [''coverage'', ''report'', ''--show-missing'', ''--fail-under=99''],
      run [''coverage'', ''erase'']]"

definition system :: stmt where
  "system w s0 =
     (let system_test_path = os_path_join ''tests'' [''system.py''];
          system_test_folder_path = os_path_join ''tests'' [''system'']
      in block
        [py_if (\<not> truthy (environ_get w ''GOOGLE_APPLICATION_CREDENTIALS'' ''''))
           (skip ''Credentials must be set via environment variable''),
         (\<lambda>w s.
            let system_test_exists = os_path_exists s system_test_path;
                system_test_folder_exists = os_path_exists s system_test_folder_path
            in block
              [py_if (\<not> system_test_exists \<and> \<not> system_test_folder_exists)
                 (skip ''System tests were not found''),
               install [''--pre'', ''grpcio''],
               install [''mock'', ''pytest''],
               for_each LOCAL_DEPS (\<lambda>local_dep. install [''-e'', local_dep]),
               install [''-e'', ''test_utils/''],
               install [''-e'', ''.''],
               py_if system_test_exists
                 (run ([''py.test'', ''--quiet'', system_test_path] @ posargs w)),
               py_if system_test_folder_exists
                 (run ([''py.test'', ''--quiet'', system_test_folder_path] @ posargs w))]
              w s)]
        w s0)"

definition snippets :: stmt where
  "snippets w = block
     [py_if (\<not> truthy (environ_get w ''GOOGLE_APPLICATION_CREDENTIALS'' ''''))
        (skip ''Credentials must be set via environment variable.''),
      install [''mock'', ''pytest''],
      for_each LOCAL_DEPS (\<lambda>local_dep. install [''-e'', local_dep]),
      install [''-e'', ''test_utils/''],
      install [''-e'', ''.''],
      run ([''py.test'', ''--quiet'', os_path_join ''docs'' [''snippets.py'']] @ posargs w),
      run ([''py.test'', ''--quiet'', os_path_join ''docs'' [''snippets_table.py'']] @ posargs w)]
     w"

definition docs :: stmt where
  "docs = block
     [install [''-e'', ''.''],
      install [''sphinx'', ''alabaster'', ''recommonmark''],
      rmtree_ignore_errors (os_path_join ''docs'' [''_build'']),
      run [''sphinx-build'', ''-W'', ''-T'', ''-N'', ''-b'', ''html'', ''-d'',
           os_path_join ''docs'' [''_build'', ''doctrees'', ''''],
           os_path_join ''docs'' [''''],
           os_path_join ''docs'' [''_build'', ''html'', '''']]]"

definition docfx :: stmt where
  "docfx = block
     [install [''-e'', ''.''],
      install [''sphinx'', ''alabaster'', ''recommonmark'', ''sphinx-docfx-yaml''],
      rmtree_ignore_errors (os_path_join ''docs'' [''_build'']),
      run [''sphinx-build'', ''-T'', ''-N'', ''-D'',
           ''extensions=sphinx.ext.autodoc,'' @ ''sphinx.ext.autosummary,'' @
           ''docfx_yaml.extension,'' @ ''sphinx.ext.intersphinx,'' @
           ''sphinx.ext.coverage,'' @ ''sphinx.ext.napoleon,'' @ ''sphinx.ext.todo,'' @
           ''sphinx.ext.viewcode,'' @ ''recommonmark'',
           ''-b'', ''html'', ''-d'',
           os_path_join ''docs'' [''_build'', ''doctrees'', ''''],
           os_path_join ''docs'' [''''],
           os_path_join ''docs'' [''_build'', ''html'', '''']]]"

subsection \<open>Registration\<close>

text \<open>
  The functions the file defines, in order, each with the \<^verbatim>\<open>python\<close> argument of its
  \<^verbatim>\<open>@nox.session\<close> decorator (\<open>None\<close> for a function without the decorator).
  The decorator registers the function as a session under the function's name.
\<close>

definition noxfile :: "(string \<times> string list option \<times> stmt) list" where
  "noxfile =
     [(''lint'', Some [DEFAULT_PYTHON_VERSION], lint),
      (''blacken'', Some [''3.6''], blacken),
      (''lint_setup_py'', Some [DEFAULT_PYTHON_VERSION], lint_setup_py),
      (''default'', None, default_session),
      (''unit'', Some UNIT_TEST_PYTHON_VERSIONS, unit),
      (''cover'', Some [DEFAULT_PYTHON_VERSION], cover),
      (''system'', Some SYSTEM_TEST_PYTHON_VERSIONS, system),
      (''snippets'', Some SYSTEM_TEST_PYTHON_VERSIONS, snippets),
      (''docs'', Some [DEFAULT_PYTHON_VERSION], docs),
      (''docfx'', Some [DEFAULT_PYTHON_VERSION], docfx)]"

definition registered :: "(string \<times> stmt) list" where
  "registered = map (\<lambda>(name, python, body). (name, body))
     (filter (\<lambda>(name, python, body). python \<noteq> None) noxfile)"

definition session_names :: "string list" where
  "session_names = map fst registered"

subsection \<open>Running a session\<close>

datatype outcome = Success | Skipped string | Failed

definition initial :: "world \<Rightarrow> state" where
  "initial w = \<lparr>events = [], filesystem = files w\<rparr>"

definition outcome_of :: "stmt \<Rightarrow> world \<Rightarrow> outcome" where
  "outcome_of body w =
     (case fst (body w (initial w)) of
        None \<Rightarrow> Success
      | Some (SessionSkip msg) \<Rightarrow> Skipped msg
      | Some CommandFailed \<Rightarrow> Failed)"

definition trace_of :: "stmt \<Rightarrow> world \<Rightarrow> event list" where
  "trace_of body w = events (snd (body w (initial w)))"

section \<open>Sessions as straight-line call sequences\<close>

text \<open>
  Apart from its guards, a session body is a fixed sequence of calls, each of which
  leaves one event in the trace.
\<close>

datatype call = PipInstall "string list" | Command "string list" | RemoveTree string

fun perform :: "call \<Rightarrow> stmt" where
  "perform (PipInstall a) = install a"
| "perform (Command a) = run a"
| "perform (RemoveTree p) = rmtree_ignore_errors p"

fun call_of :: "event \<Rightarrow> call" where
  "call_of (Install a f c) = PipInstall a"
| "call_of (Run a f c) = Command a"
| "call_of (Rmtree p b l) = RemoveTree p"

fun is_pip :: "call \<Rightarrow> bool" where
  "is_pip (PipInstall a) = True"
| "is_pip (Command a) = False"
| "is_pip (RemoveTree p) = False"

definition straight :: "call list \<Rightarrow> stmt" where
  "straight cs = block (map perform cs)"

text \<open>
  A trace follows a call sequence when a successful session performed all of it with
  every status zero, a skipped session performed nothing, and a failed session performed
  an initial part of it that ends with the only command of non-zero status.
\<close>

definition follows :: "call list \<Rightarrow> outcome \<Rightarrow> event list \<Rightarrow> bool" where
  "follows cs out evs =
     (case out of
        Success \<Rightarrow> map call_of evs = cs \<and> list_all (\<lambda>e. status e = 0) evs
      | Skipped msg \<Rightarrow> evs = []
      | Failed \<Rightarrow>
          evs \<noteq> [] \<and> map call_of evs = take (length evs) cs \<and> length evs \<le> length cs
          \<and> list_all (\<lambda>e. status e = 0) (butlast evs) \<and> status (last evs) \<noteq> 0)"

text \<open>The arguments of the \<^verbatim>\<open>session.install\<close> calls of each session, in order.\<close>

definition installs :: "string \<Rightarrow> string list list" where
  "installs name =
     (if name = ''lint'' then [[''flake8'', ''black''] @ LOCAL_DEPS]
      else if name = ''blacken'' then [[''black'']]
      else if name = ''lint_setup_py'' then [[''docutils'', ''pygments'']]
      else if name = ''unit'' then
        [[''mock'', ''pytest'', ''pytest-cov'']] @ map (\<lambda>local_dep. [''-e'', local_dep]) LOCAL_DEPS
        @ [[''-e'', ''.'']]
      else if name = ''cover'' then [[''coverage'', ''pytest-cov'']]
      else if name = ''system'' then
        [[''--pre'', ''grpcio''], [''mock'', ''pytest'']]
        @ map (\<lambda>local_dep. [''-e'', local_dep]) LOCAL_DEPS
        @ [[''-e'', ''test_utils/''], [''-e'', ''.'']]
      else if name = ''snippets'' then
        [[''mock'', ''pytest'']] @ map (\<lambda>local_dep. [''-e'', local_dep]) LOCAL_DEPS
        @ [[''-e'', ''test_utils/''], [''-e'', ''.'']]
      else if name = ''docs'' then [[''-e'', ''.''], [''sphinx'', ''alabaster'', ''recommonmark'']]
      else if name = ''docfx'' then
        [[''-e'', ''.''], [''sphinx'', ''alabaster'', ''recommonmark'', ''sphinx-docfx-yaml'']]
      else [])"

text \<open>The calls of each session after its installs, in order.\<close>

definition tools :: "string \<Rightarrow> world \<Rightarrow> call list" where
  "tools name w =
     (if name = ''lint'' then
        [Command [''black'', ''--check'', ''google'', ''tests'', ''docs''],
         Command [''flake8'', ''google'', ''tests'']]
      else if name = ''blacken'' then [Command [''black'', ''google'', ''tests'', ''docs'']]
      else if name = ''lint_setup_py'' then
        [Command [''python'', ''setup.py'', ''check'', ''--restructuredtext'', ''--strict'']]
      else if name = ''unit'' then
        [Command ([''py.test'', ''--quiet'', ''--cov=google.cloud'', ''--cov=tests.unit'',
                   ''--cov-append'', ''--cov-config=.coveragerc'', ''--cov-report='',
                   ''--cov-fail-under=0'', ''tests/unit''] @ posargs w)]
      else if name = ''cover'' then
        [Command [''coverage'', ''report'', ''--show-missing'', ''--fail-under=99''],
         Command [''coverage'', ''erase'']]
      else if name = ''system'' then
        (if files w ''tests/system.py''
         then [Command ([''py.test'', ''--quiet'', ''tests/system.py''] @ posargs w)] else [])
        @ (if files w ''tests/system''
           then [Command ([''py.test'', ''--quiet'', ''tests/system''] @ posargs w)] else [])
      else if name = ''snippets'' then
        [Command ([''py.test'', ''--quiet'', ''docs/snippets.py''] @ posargs w),
         Command ([''py.test'', ''--quiet'', ''docs/snippets_table.py''] @ posargs w)]
      else if name = ''docs'' then
        [RemoveTree ''docs/_build'',
         Command [''sphinx-build'', ''-W'', ''-T'', ''-N'', ''-b'', ''html'', ''-d'',
                  ''docs/_build/doctrees/'', ''docs/'', ''docs/_build/html/'']]
      else if name = ''docfx'' then
        [RemoveTree ''docs/_build'',
         Command [''sphinx-build'', ''-T'', ''-N'', ''-D'',
                  ''extensions=sphinx.ext.autodoc,sphinx.ext.autosummary,docfx_yaml.extension,sphinx.ext.intersphinx,sphinx.ext.coverage,sphinx.ext.napoleon,sphinx.ext.todo,sphinx.ext.viewcode,recommonmark'',
                  ''-b'', ''html'', ''-d'',
                  ''docs/_build/doctrees/'', ''docs/'', ''docs/_build/html/'']]
      else [])"

definition plan :: "string \<Rightarrow> world \<Rightarrow> call list" where
  "plan name w = map PipInstall (installs name) @ tools name w"

definition result_of :: "stop option \<Rightarrow> outcome" where
  "result_of r =
     (case r of
        None \<Rightarrow> Success
      | Some (SessionSkip msg) \<Rightarrow> Skipped msg
      | Some CommandFailed \<Rightarrow> Failed)"

fun is_command :: "call \<Rightarrow> bool" where
  "is_command (PipInstall a) = False"
| "is_command (Command a) = True"
| "is_command (RemoveTree p) = False"


section \<open>Concrete worlds\<close>

text \<open>
  A checkout with credentials where every file is present, every command passes and a
  removal removes the whole tree.
\<close>

definition ci_world :: world where
  "ci_world =
     \<lparr>environ = [''GOOGLE_APPLICATION_CREDENTIALS'' \<mapsto> ''/secrets/key.json''],
      posargs = [],
      files = (\<lambda>p. p \<in> set [''tests/unit'', ''tests/system.py'', ''tests/system'',
                 ''docs/snippets.py'', ''docs/snippets_table.py'',
                 ''docs/_build'', ''docs/_build/html/index.html'']),
      command = (\<lambda>n a fs. (0, fs)),
      removal = (\<lambda>n root fs p. fs p \<and> \<not> within root p)\<rparr>"

text \<open>The same checkout without the credential variable, and with an empty one.\<close>

definition no_credentials :: world where
  "no_credentials = ci_world\<lparr>environ := Map.empty\<rparr>"

definition empty_credentials :: world where
  "empty_credentials = ci_world\<lparr>environ := [''GOOGLE_APPLICATION_CREDENTIALS'' \<mapsto> '''']\<rparr>"

text \<open>
  A checkout with credentials and no file at all; py.test exits with status 4 when the
  path it is given does not exist.
\<close>

definition bare_checkout :: world where
  "bare_checkout =
     ci_world\<lparr>files := (\<lambda>p. False),
       command := (\<lambda>n a fs. (if take 2 a = [''py.test'', ''--quiet''] \<and> \<not> fs (a ! 2) then 4 else 0, fs))\<rparr>"

text \<open>The full checkout where every py.test run fails with status 1.\<close>

definition failing_tests :: world where
  "failing_tests = ci_world\<lparr>command := (\<lambda>n a fs. (if take 1 a = [''py.test''] then 1 else 0, fs))\<rparr>"

text \<open>The full checkout where no removal succeeds: the tree is read-only.\<close>

definition read_only_build :: world where
  "read_only_build = ci_world\<lparr>removal := (\<lambda>n root fs. fs)\<rparr>"

section \<open>Every session follows its call sequence\<close>

lemmas exec_defs = seq_def pass_def py_if_def skip_def for_each_def LOCAL_DEPS_def
  external_def run_def install_def rmtree_ignore_errors_def Let_def
  environ_get_def truthy_def os_path_exists_def initial_def outcome_of_def trace_of_def

lemma lint_straight: "lint = straight (plan ''lint'' w)"
  by (simp add: lint_def straight_def plan_def installs_def tools_def)

lemma blacken_straight: "blacken = straight (plan ''blacken'' w)"
  by (simp add: blacken_def straight_def plan_def installs_def tools_def)

lemma lint_setup_py_straight: "lint_setup_py = straight (plan ''lint_setup_py'' w)"
  by (simp add: lint_setup_py_def straight_def plan_def installs_def tools_def)

lemma seq_pass: "seq pass a = a"
  by (rule ext, rule ext) (simp add: seq_def pass_def)

lemma unit_straight: "unit w = straight (plan ''unit'' w) w"
  by (simp add: unit_def default_session_def straight_def plan_def installs_def tools_def
      for_each_def LOCAL_DEPS_def seq_pass)

lemma cover_straight: "cover = straight (plan ''cover'' w)"
  by (simp add: cover_def straight_def plan_def installs_def tools_def)

lemma docs_straight: "docs = straight (plan ''docs'' w)"
  by (simp add: docs_def straight_def plan_def installs_def tools_def)

lemma docfx_straight: "docfx = straight (plan ''docfx'' w)"
  by (simp add: docfx_def straight_def plan_def installs_def tools_def)

lemma snippets_run:
  "snippets w s =
     (if environ_get w ''GOOGLE_APPLICATION_CREDENTIALS'' '''' = ''''
      then (Some (SessionSkip ''Credentials must be set via environment variable.''), s)
      else straight (plan ''snippets'' w) w s)"
  by (simp add: snippets_def straight_def plan_def installs_def tools_def
      for_each_def LOCAL_DEPS_def seq_pass py_if_def truthy_def)
     (simp add: seq_def skip_def)

lemma system_run:
  "system w s =
     (if environ_get w ''GOOGLE_APPLICATION_CREDENTIALS'' '''' = ''''
      then (Some (SessionSkip ''Credentials must be set via environment variable''), s)
      else if \<not> filesystem s ''tests/system.py'' \<and> \<not> filesystem s ''tests/system''
      then (Some (SessionSkip ''System tests were not found''), s)
      else straight
        (map PipInstall (installs ''system'')
         @ (if filesystem s ''tests/system.py''
         then [Command ([''py.test'', ''--quiet'', ''tests/system.py''] @ posargs w)] else [])
        @ (if filesystem s ''tests/system''
           then [Command ([''py.test'', ''--quiet'', ''tests/system''] @ posargs w)] else [])) w s)"
  by (simp add: system_def straight_def installs_def 
      for_each_def LOCAL_DEPS_def seq_pass py_if_def truthy_def os_path_exists_def Let_def)
     (simp add: seq_def skip_def pass_def split: prod.splits option.splits)

lemma perform_step:
  "perform c w s = (r, s') \<Longrightarrow>
     \<exists>e. events s' = events s @ [e] \<and> call_of e = c
        \<and> (r = None \<longrightarrow> status e = 0)
        \<and> (r \<noteq> None \<longrightarrow> r = Some CommandFailed \<and> status e \<noteq> 0)"
  by (cases c) (auto simp: exec_defs split: prod.splits if_splits)

lemma straight_Nil: "straight [] w s = (None, s)"
  by (simp add: straight_def pass_def)

lemma straight_Cons:
  "straight (c # cs) w s =
     (case perform c w s of (None, s') \<Rightarrow> straight cs w s' | (Some x, s') \<Rightarrow> (Some x, s'))"
  unfolding straight_def by (simp add: seq_def)

lemma straight_follows:
  "straight cs w s = (r, s') \<Longrightarrow>
     \<exists>evs. events s' = events s @ evs \<and> follows cs (result_of r) evs
          \<and> (\<forall>m. r \<noteq> Some (SessionSkip m))"
proof (induction cs arbitrary: s)
  case Nil
  then show ?case by (simp add: straight_Nil follows_def result_of_def)
next
  case (Cons c cs)
  obtain r1 s1 where p: "perform c w s = (r1, s1)" by (cases "perform c w s")
  from perform_step[OF p] obtain e where e: "events s1 = events s @ [e]" "call_of e = c"
    "r1 = None \<longrightarrow> status e = 0" "r1 \<noteq> None \<longrightarrow> r1 = Some CommandFailed \<and> status e \<noteq> 0"
    by blast
  show ?case
  proof (cases r1)
    case None
    with Cons.prems p have "straight cs w s1 = (r, s')" by (simp add: straight_Cons)
    from Cons.IH[OF this] obtain evs where evs: "events s' = events s1 @ evs"
      "follows cs (result_of r) evs" "\<forall>m. r \<noteq> Some (SessionSkip m)" by blast
    have "follows (c # cs) (result_of r) (e # evs)"
      using evs(2,3) e(2,3) None
      by (auto simp: follows_def result_of_def split: option.splits stop.splits if_splits)
    with evs(1,3) e(1) show ?thesis by auto
  next
    case (Some x)
    with Cons.prems p have "r = Some x" "s' = s1" by (simp_all add: straight_Cons)
    with e Some have "events s' = events s @ [e]" "follows (c # cs) (result_of r) [e]"
      "\<forall>m. r \<noteq> Some (SessionSkip m)" by (auto simp: follows_def result_of_def)
    then show ?thesis by blast
  qed
qed

lemma straight_session:
  assumes "body w (initial w) = straight cs w (initial w)"
  shows "follows cs (outcome_of body w) (trace_of body w)"
proof -
  obtain r s' where rs: "straight cs w (initial w) = (r, s')"
    by (cases "straight cs w (initial w)")
  from straight_follows[OF rs] obtain evs where
    "events s' = events (initial w) @ evs" "follows cs (result_of r) evs" by blast
  with assms rs show ?thesis
    by (simp add: outcome_of_def trace_of_def result_of_def initial_def)
qed

lemma skipped_session:
  assumes "body w (initial w) = (Some (SessionSkip m), initial w)"
  shows "follows cs (outcome_of body w) (trace_of body w)"
  using assms by (simp add: outcome_of_def trace_of_def follows_def initial_def)

lemma system_follows: "follows (plan ''system'' w) (outcome_of system w) (trace_of system w)"
proof -
  have fs: "filesystem (initial w) = files w" by (simp add: initial_def)
  consider (nocred) "environ_get w ''GOOGLE_APPLICATION_CREDENTIALS'' '''' = ''''"
    | (notfound) "environ_get w ''GOOGLE_APPLICATION_CREDENTIALS'' '''' \<noteq> ''''"
        "\<not> files w ''tests/system.py'' \<and> \<not> files w ''tests/system''"
    | (go) "environ_get w ''GOOGLE_APPLICATION_CREDENTIALS'' '''' \<noteq> ''''"
        "\<not> (\<not> files w ''tests/system.py'' \<and> \<not> files w ''tests/system'')"
    by blast
  then show ?thesis
  proof cases
    case nocred
    then show ?thesis by (intro skipped_session) (simp add: system_run)
  next
    case notfound
    then show ?thesis by (intro skipped_session) (simp add: system_run fs)
  next
    case go
    then have "system w (initial w) = straight (plan ''system'' w) w (initial w)"
      by (simp only: system_run fs plan_def tools_def) simp
    then show ?thesis by (rule straight_session)
  qed
qed

lemma snippets_follows:
  "follows (plan ''snippets'' w) (outcome_of snippets w) (trace_of snippets w)"
proof (cases "environ_get w ''GOOGLE_APPLICATION_CREDENTIALS'' '''' = ''''")
  case True
  then show ?thesis by (intro skipped_session) (simp add: snippets_run)
next
  case False
  then show ?thesis by (intro straight_session) (simp add: snippets_run)
qed

lemma registered_cases:
  assumes "(name, body) \<in> set registered"
  obtains "name = ''lint''" "body = lint" | "name = ''blacken''" "body = blacken"
    | "name = ''lint_setup_py''" "body = lint_setup_py" | "name = ''unit''" "body = unit"
    | "name = ''cover''" "body = cover" | "name = ''system''" "body = system"
    | "name = ''snippets''" "body = snippets" | "name = ''docs''" "body = docs"
    | "name = ''docfx''" "body = docfx"
proof -
  from assms have "(name, body) = (''lint'', lint) \<or> (name, body) = (''blacken'', blacken)
    \<or> (name, body) = (''lint_setup_py'', lint_setup_py) \<or> (name, body) = (''unit'', unit)
    \<or> (name, body) = (''cover'', cover) \<or> (name, body) = (''system'', system)
    \<or> (name, body) = (''snippets'', snippets) \<or> (name, body) = (''docs'', docs)
    \<or> (name, body) = (''docfx'', docfx)"
    unfolding registered_def noxfile_def by simp
  then show thesis using that by (elim disjE) (simp_all only: prod.inject)
qed

lemma registered_follows:
  assumes "(name, body) \<in> set registered"
  shows "follows (plan name w) (outcome_of body w) (trace_of body w)"
  using assms
proof (cases rule: registered_cases)
  case 1 then show ?thesis using lint_straight[of w] by (intro straight_session) simp
next
  case 2 then show ?thesis using blacken_straight[of w] by (intro straight_session) simp
next
  case 3 then show ?thesis using lint_setup_py_straight[of w] by (intro straight_session) simp
next
  case 4 then show ?thesis using unit_straight[of w] by (intro straight_session) simp
next
  case 5 then show ?thesis using cover_straight[of w] by (intro straight_session) simp
next
  case 6 then show ?thesis using system_follows by simp
next
  case 7 then show ?thesis using snippets_follows by simp
next
  case 8 then show ?thesis using docs_straight[of w] by (intro straight_session) simp
next
  case 9 then show ?thesis using docfx_straight[of w] by (intro straight_session) simp
qed

lemma follows_nth:
  assumes "follows cs out evs" "i < length evs"
  shows "i < length cs \<and> call_of (evs ! i) = cs ! i"
proof (cases out)
  case Success
  with assms have m: "map call_of evs = cs" by (simp add: follows_def)
  then have "length cs = length evs" by auto
  moreover from m assms(2) have "call_of (evs ! i) = cs ! i" by (metis nth_map)
  ultimately show ?thesis using assms(2) by simp
next
  case (Skipped m)
  with assms show ?thesis by (simp add: follows_def)
next
  case Failed
  with assms have m: "map call_of evs = take (length evs) cs" "length evs \<le> length cs"
    by (simp_all add: follows_def)
  from m(1) assms(2) have "call_of (evs ! i) = take (length evs) cs ! i" by (metis nth_map)
  with assms(2) m(2) show ?thesis by simp
qed

lemma follows_fail_fast:
  assumes "follows cs out evs" "i < length evs" "status (evs ! i) \<noteq> 0"
  shows "out = Failed \<and> Suc i = length evs"
proof (cases out)
  case Success
  with assms(1) have "list_all (\<lambda>e. status e = 0) evs" by (simp add: follows_def)
  with assms(2,3) show ?thesis by (simp add: list_all_length)
next
  case (Skipped m)
  with assms show ?thesis by (simp add: follows_def)
next
  case Failed
  with assms(1) have b: "list_all (\<lambda>e. status e = 0) (butlast evs)" by (simp add: follows_def)
  have "\<not> i < length evs - 1"
  proof
    assume "i < length evs - 1"
    with b have "status (butlast evs ! i) = 0" by (simp add: list_all_length)
    with \<open>i < length evs - 1\<close> assms(3) show False by (simp add: nth_butlast)
  qed
  with assms(2) Failed show ?thesis by simp
qed

lemmas world_defs = ci_world_def no_credentials_def empty_credentials_def bare_checkout_def
  failing_tests_def read_only_build_def


lemma follows_reaches:
  assumes f: "follows cs out evs" and ns: "\<forall>m. out \<noteq> Skipped m" and j: "j < length cs"
    and ok: "\<forall>i < length evs. i < j \<longrightarrow> status (evs ! i) = 0"
  shows "j < length evs \<and> call_of (evs ! j) = cs ! j"
proof -
  have "j < length evs"
  proof (cases out)
    case Success
    with f have "map call_of evs = cs" by (simp add: follows_def)
    then have "length evs = length cs" by auto
    with j show ?thesis by simp
  next
    case (Skipped m)
    with ns show ?thesis by simp
  next
    case Failed
    with f have ne: "evs \<noteq> []" and l: "status (last evs) \<noteq> 0" by (simp_all add: follows_def)
    from ne have "last evs = evs ! (length evs - 1)" by (simp add: last_conv_nth)
    with l ok ne have "\<not> length evs - 1 < j" by auto
    with ne show ?thesis by (cases evs) auto
  qed
  with follows_nth[OF f] show ?thesis by simp
qed

lemma is_install_call: "is_install e = is_pip (call_of e)"
  by (cases e) simp_all

lemma is_run_call: "is_run e \<Longrightarrow> \<not> is_pip (call_of e)"
  by (cases e) simp_all

lemma argv_call: "call_of e = PipInstall a \<Longrightarrow> argv e = a"
  by (cases e) simp_all

lemma follows_installs_first:
  assumes f: "follows (map PipInstall ds @ ts) out evs"
    and ts: "list_all (\<lambda>c. \<not> is_pip c) ts"
    and i: "i < length evs" "is_run (evs ! i)"
  shows "length ds \<le> i \<and> filter is_install evs = take (length ds) evs
       \<and> map argv (take (length ds) evs) = ds
       \<and> list_all (\<lambda>e. status e = 0) (take (length ds) evs)"
proof -
  let ?n = "length ds"
  have nth: "call_of (evs ! j) = (map PipInstall ds @ ts) ! j" "j < ?n + length ts"
    if "j < length evs" for j using follows_nth[OF f that] by simp_all
  have low: "call_of (evs ! j) = PipInstall (ds ! j)" if "j < length evs" "j < ?n" for j
    using nth(1)[OF that(1)] that(2) by (simp add: nth_append)
  have high: "\<not> is_pip (call_of (evs ! j))" if "j < length evs" "?n \<le> j" for j
  proof -
    from nth[OF that(1)] that(2) have "call_of (evs ! j) = ts ! (j - ?n)" "j - ?n < length ts"
      by (auto simp: nth_append)
    with ts show ?thesis by (simp add: list_all_length)
  qed
  have n_le: "?n \<le> i"
  proof (rule ccontr)
    assume "\<not> ?n \<le> i"
    then have "call_of (evs ! i) = PipInstall (ds ! i)" using low i(1) by simp
    with is_run_call[OF i(2)] show False by simp
  qed
  then have len: "?n \<le> length evs" using i(1) by simp
  have t: "list_all is_install (take ?n evs)"
    using low len by (simp add: list_all_length is_install_call)
  have d: "list_all (\<lambda>e. \<not> is_install e) (drop ?n evs)"
    using high len by (simp add: list_all_length is_install_call)
  have "filter is_install evs = filter is_install (take ?n evs) @ filter is_install (drop ?n evs)"
    by (metis append_take_drop_id filter_append)
  also have "filter is_install (take ?n evs) = take ?n evs"
    using t by (simp add: list_all_iff)
  also have "filter is_install (drop ?n evs) = []"
    using d by (simp add: list_all_iff filter_empty_conv)
  finally have fi: "filter is_install evs = take ?n evs" by simp
  have ma: "map argv (take ?n evs) = ds"
    using len low by (intro nth_equalityI) (simp_all add: argv_call)
  have st: "list_all (\<lambda>e. status e = 0) (take ?n evs)"
    unfolding list_all_length
  proof (intro allI impI)
    fix j assume "j < length (take ?n evs)"
    then have j: "j < ?n" "j < length evs" by simp_all
    have "status (evs ! j) = 0"
    proof (rule ccontr)
      assume "status (evs ! j) \<noteq> 0"
      from follows_fail_fast[OF f j(2) this] j(1) n_le i(1) show False by simp
    qed
    with j show "status (take ?n evs ! j) = 0" by simp
  qed
  from n_le fi ma st show ?thesis by simp
qed

lemma tools_not_pip: "list_all (\<lambda>c. \<not> is_pip c) (tools name w)"
  by (simp add: tools_def)

subsection \<open>What a removal hands on\<close>

lemma straight_not_skipped:
  assumes "body w (initial w) = straight cs w (initial w)"
  shows "outcome_of body w \<noteq> Skipped m"
proof -
  obtain r s' where rs: "straight cs w (initial w) = (r, s')"
    by (cases "straight cs w (initial w)")
  from straight_follows[OF rs] have "\<forall>m. r \<noteq> Some (SessionSkip m)" by blast
  with assms rs show ?thesis
    by (auto simp: outcome_of_def split: option.splits stop.splits)
qed






subsection \<open>Reading a trace against its call sequence\<close>



lemma call_PipInstall: "call_of e = PipInstall a \<Longrightarrow> is_install e \<and> argv e = a \<and> \<not> is_run e"
  by (cases e) simp_all



lemma follows_tool:
  assumes f: "follows (map PipInstall ds @ ts) out evs" and ns: "\<forall>m. out \<noteq> Skipped m"
    and k: "k < length ts" and inst: "\<forall>e \<in> set evs. is_install e \<longrightarrow> status e = 0"
    and prev: "\<forall>i < k. length ds + i < length evs \<longrightarrow> status (evs ! (length ds + i)) = 0"
  shows "length ds + k < length evs \<and> call_of (evs ! (length ds + k)) = ts ! k"
proof -
  have ok: "\<forall>i < length evs. i < length ds + k \<longrightarrow> status (evs ! i) = 0"
  proof (intro allI impI)
    fix i assume i: "i < length evs" "i < length ds + k"
    show "status (evs ! i) = 0"
    proof (cases "i < length ds")
      case True
      with follows_nth[OF f i(1)] have "call_of (evs ! i) = PipInstall (ds ! i)"
        by (simp add: nth_append)
      then have "is_install (evs ! i)" by (simp add: call_PipInstall)
      with inst i(1) show ?thesis by simp
    next
      case False
      then have "i = length ds + (i - length ds)" "i - length ds < k" using i(2) by simp_all
      with prev i(1) show ?thesis by metis
    qed
  qed
  from k have "length ds + k < length (map PipInstall ds @ ts)" by simp
  from follows_reaches[OF f ns this ok] show ?thesis by (simp add: nth_append)
qed

lemma runs_of_calls:
  "map Command (map argv (filter is_run evs)) = filter is_command (map call_of evs)"
proof (induction evs)
  case Nil
  show ?case by simp
next
  case (Cons e evs)
  then show ?case by (cases e) simp_all
qed

lemma follows_prefix:
  assumes "follows cs out evs"
  shows "map call_of evs = take (length evs) cs \<and> length evs \<le> length cs"
proof (cases out)
  case Success
  with assms have "map call_of evs = cs" by (simp add: follows_def)
  then show ?thesis by auto
next
  case (Skipped m)
  with assms show ?thesis by (simp add: follows_def)
next
  case Failed
  with assms show ?thesis by (simp add: follows_def)
qed

lemma system_go:
  assumes "environ_get w ''GOOGLE_APPLICATION_CREDENTIALS'' '''' \<noteq> ''''"
    and "files w ''tests/system.py'' \<or> files w ''tests/system''"
  shows "system w (initial w) = straight (plan ''system'' w) w (initial w)"
proof -
  have fs: "filesystem (initial w) = files w" by (simp add: initial_def)
  from assms show ?thesis by (simp only: system_run fs plan_def tools_def) auto
qed

lemma registered_unit: "(''unit'', unit) \<in> set registered"
  by (simp add: registered_def noxfile_def)


lemma registered_snippets: "(''snippets'', snippets) \<in> set registered"
  by (simp add: registered_def noxfile_def)

lemma registered_docs: "(''docs'', docs) \<in> set registered"
  by (simp add: registered_def noxfile_def)

lemma registered_docfx: "(''docfx'', docfx) \<in> set registered"
  by (simp add: registered_def noxfile_def)

subsection \<open>The plans of single sessions\<close>

lemma docs_plan:
  "plan ''docs'' w =
     [PipInstall [''-e'', ''.''], PipInstall [''sphinx'', ''alabaster'', ''recommonmark''],
      RemoveTree ''docs/_build'',
      Command [''sphinx-build'', ''-W'', ''-T'', ''-N'', ''-b'', ''html'', ''-d'',
               ''docs/_build/doctrees/'', ''docs/'', ''docs/_build/html/'']]"
  by (simp add: plan_def installs_def tools_def)

lemma docfx_plan:
  "plan ''docfx'' w =
     [PipInstall [''-e'', ''.''],
      PipInstall [''sphinx'', ''alabaster'', ''recommonmark'', ''sphinx-docfx-yaml''],
      RemoveTree ''docs/_build'',
      Command [''sphinx-build'', ''-T'', ''-N'', ''-D'',
               ''extensions=sphinx.ext.autodoc,sphinx.ext.autosummary,docfx_yaml.extension,sphinx.ext.intersphinx,sphinx.ext.coverage,sphinx.ext.napoleon,sphinx.ext.todo,sphinx.ext.viewcode,recommonmark'',
               ''-b'', ''html'', ''-d'',
               ''docs/_build/doctrees/'', ''docs/'', ''docs/_build/html/'']]"
  by (simp add: plan_def installs_def tools_def)

lemma system_plan:
  "plan ''system'' w =
     [PipInstall [''--pre'', ''grpcio''], PipInstall [''mock'', ''pytest''],
      PipInstall [''-e'', ''test_utils/''], PipInstall [''-e'', ''.'']]
     @ (if files w ''tests/system.py''
        then [Command ([''py.test'', ''--quiet'', ''tests/system.py''] @ posargs w)] else [])
     @ (if files w ''tests/system''
        then [Command ([''py.test'', ''--quiet'', ''tests/system''] @ posargs w)] else [])"
  by (simp add: plan_def installs_def tools_def LOCAL_DEPS_def)



lemma system_installs: "length (installs ''system'') = 4"
  by (simp add: installs_def LOCAL_DEPS_def)

lemma runs_of_trace:
  assumes "follows cs out evs"
  shows "map Command (map argv (filter is_run evs)) = filter is_command (take (length evs) cs)"
  using follows_prefix[OF assms] runs_of_calls[of evs] by simp

lemma commands_eq1: "map Command xs = [Command a] \<Longrightarrow> xs = [a]"
  by (auto simp: map_eq_Cons_conv)

lemma commands_eq2: "map Command xs = [Command a, Command b] \<Longrightarrow> xs = [a, b]"
  by (auto simp: map_eq_Cons_conv)


lemma follows_complete:
  assumes "follows cs out evs" and "\<forall>m. out \<noteq> Skipped m" and "\<forall>e \<in> set evs. status e = 0"
  shows "length evs = length cs"
proof (cases out)
  case Success
  with assms(1) have "map call_of evs = cs" by (simp add: follows_def)
  then show ?thesis by auto
next
  case (Skipped m)
  with assms(2) show ?thesis by simp
next
  case Failed
  with assms(1) have "evs \<noteq> []" "status (last evs) \<noteq> 0" by (simp_all add: follows_def)
  with assms(3) show ?thesis by (metis last_in_set)
qed

lemma registered_lint: "(''lint'', lint) \<in> set registered"
  by (simp add: registered_def noxfile_def)

lemma registered_blacken: "(''blacken'', blacken) \<in> set registered"
  by (simp add: registered_def noxfile_def)

lemma registered_lint_setup_py: "(''lint_setup_py'', lint_setup_py) \<in> set registered"
  by (simp add: registered_def noxfile_def)

lemma registered_cover: "(''cover'', cover) \<in> set registered"
  by (simp add: registered_def noxfile_def)

lemma straight_never_skipped:
  assumes "body = straight cs"
  shows "\<forall>m. outcome_of body w \<noteq> Skipped m"
  using straight_not_skipped[of body w cs] assms by simp

lemma lint_plan:
  "plan ''lint'' w =
     [PipInstall [''flake8'', ''black''],
      Command [''black'', ''--check'', ''google'', ''tests'', ''docs''],
      Command [''flake8'', ''google'', ''tests'']]"
  by (simp add: plan_def installs_def tools_def LOCAL_DEPS_def)

lemma blacken_plan:
  "plan ''blacken'' w =
     [PipInstall [''black''], Command [''black'', ''google'', ''tests'', ''docs'']]"
  by (simp add: plan_def installs_def tools_def)

lemma lint_setup_py_plan:
  "plan ''lint_setup_py'' w =
     [PipInstall [''docutils'', ''pygments''],
      Command [''python'', ''setup.py'', ''check'', ''--restructuredtext'', ''--strict'']]"
  by (simp add: plan_def installs_def tools_def)

lemma unit_plan:
  "plan ''unit'' w =
     [PipInstall [''mock'', ''pytest'', ''pytest-cov''], PipInstall [''-e'', ''.''],
      Command ([''py.test'', ''--quiet'', ''--cov=google.cloud'', ''--cov=tests.unit'',
                ''--cov-append'', ''--cov-config=.coveragerc'', ''--cov-report='',
                ''--cov-fail-under=0'', ''tests/unit''] @ posargs w)]"
  by (simp add: plan_def installs_def tools_def LOCAL_DEPS_def)

lemma cover_plan:
  "plan ''cover'' w =
     [PipInstall [''coverage'', ''pytest-cov''],
      Command [''coverage'', ''report'', ''--show-missing'', ''--fail-under=99''],
      Command [''coverage'', ''erase'']]"
  by (simp add: plan_def installs_def tools_def)

lemma snippets_plan:
  "plan ''snippets'' w =
     [PipInstall [''mock'', ''pytest''], PipInstall [''-e'', ''test_utils/''],
      PipInstall [''-e'', ''.''],
      Command ([''py.test'', ''--quiet'', ''docs/snippets.py''] @ posargs w),
      Command ([''py.test'', ''--quiet'', ''docs/snippets_table.py''] @ posargs w)]"
  by (simp add: plan_def installs_def tools_def LOCAL_DEPS_def)

lemma account:
  assumes f: "follows cs (outcome_of body w) (trace_of body w)"
    and ns: "\<forall>m. outcome_of body w \<noteq> Skipped m" and cs: "cs = L"
  shows "map call_of (trace_of body w) = take (length (trace_of body w)) L
       \<and> ((\<forall>e \<in> set (trace_of body w). status e = 0) \<longrightarrow> length (trace_of body w) = length L)"
  using follows_prefix[OF f] follows_complete[OF f ns] cs by simp

section \<open>The claims\<close>

text \<open>
  Claim C1: when \<^verbatim>\<open>GOOGLE_APPLICATION_CREDENTIALS\<close> is unset or empty, the system
  session and the snippets session are skipped, not failed, and invoke nothing.
\<close>

theorem C1_no_credentials_skips:
  assumes "environ w ''GOOGLE_APPLICATION_CREDENTIALS'' = None
         \<or> environ w ''GOOGLE_APPLICATION_CREDENTIALS'' = Some ''''"
  shows "outcome_of system w = Skipped ''Credentials must be set via environment variable''
       \<and> trace_of system w = []
       \<and> outcome_of snippets w = Skipped ''Credentials must be set via environment variable.''
       \<and> trace_of snippets w = []"
  using assms by (auto simp: system_def snippets_def exec_defs)

theorem C1_no_credentials_skips_witness:
  "environ no_credentials ''GOOGLE_APPLICATION_CREDENTIALS'' = None
   \<and> outcome_of system no_credentials = Skipped ''Credentials must be set via environment variable''
   \<and> trace_of system no_credentials = []
   \<and> environ empty_credentials ''GOOGLE_APPLICATION_CREDENTIALS'' = Some ''''
   \<and> outcome_of snippets empty_credentials
       = Skipped ''Credentials must be set via environment variable.''
   \<and> trace_of snippets empty_credentials = []"
proof -
  have h: "environ no_credentials ''GOOGLE_APPLICATION_CREDENTIALS'' = None"
    "environ empty_credentials ''GOOGLE_APPLICATION_CREDENTIALS'' = Some ''''"
    by (simp_all add: world_defs)
  with C1_no_credentials_skips[of no_credentials] C1_no_credentials_skips[of empty_credentials]
  show ?thesis by simp
qed




text \<open>
  Claim C3: with credentials set, when neither \<^verbatim>\<open>tests/system.py\<close> nor
  \<^verbatim>\<open>tests/system\<close> exists, the system session is skipped before any install or
  py.test call.
\<close>

theorem C3_no_system_tests_skips:
  assumes "environ w ''GOOGLE_APPLICATION_CREDENTIALS'' = Some v" and "v \<noteq> ''''"
    and "\<not> files w ''tests/system.py''" and "\<not> files w ''tests/system''"
  shows "outcome_of system w = Skipped ''System tests were not found''
       \<and> trace_of system w = []"
  using assms by (auto simp: system_def exec_defs)

theorem C3_no_system_tests_skips_witness:
  "environ bare_checkout ''GOOGLE_APPLICATION_CREDENTIALS'' = Some ''/secrets/key.json''
   \<and> \<not> files bare_checkout ''tests/system.py'' \<and> \<not> files bare_checkout ''tests/system''
   \<and> outcome_of system bare_checkout = Skipped ''System tests were not found''
   \<and> trace_of system bare_checkout = []"
proof -
  have h: "environ bare_checkout ''GOOGLE_APPLICATION_CREDENTIALS'' = Some ''/secrets/key.json''"
    "''/secrets/key.json'' \<noteq> ''''"
    "\<not> files bare_checkout ''tests/system.py''" "\<not> files bare_checkout ''tests/system''"
    by (simp_all add: world_defs)
  from C3_no_system_tests_skips[OF h] h show ?thesis by simp
qed

text \<open>
  Claim C4: in every session, a command with a non-zero exit status makes the session
  fail, and it is the last effect of the session: nothing is retried or run after it.
\<close>

theorem C4_failure_fails_session:
  assumes "(name, body) \<in> set registered"
    and "i < length (trace_of body w)" and "status (trace_of body w ! i) \<noteq> 0"
  shows "outcome_of body w = Failed \<and> Suc i = length (trace_of body w)"
  using registered_follows[OF assms(1)] assms(2,3) by (rule follows_fail_fast)

theorem C4_failure_fails_session_witness:
  "(''system'', system) \<in> set registered
   \<and> is_run (trace_of system failing_tests ! 4)
   \<and> status (trace_of system failing_tests ! 4) = 1
   \<and> outcome_of system failing_tests = Failed
   \<and> length (trace_of system failing_tests) = 5"
proof -
  have r: "(''system'', system) \<in> set registered"
    by (simp add: registered_def noxfile_def)
  have t: "4 < length (trace_of system failing_tests)"
    "status (trace_of system failing_tests ! 4) = 1" "is_run (trace_of system failing_tests ! 4)"
    by (simp_all add: system_def exec_defs world_defs)
  from t(2) have n: "status (trace_of system failing_tests ! 4) \<noteq> 0" by simp
  from C4_failure_fails_session[OF r t(1) n] r t show ?thesis by simp
qed

text \<open>
  Claim C5: in every session, all the \<^verbatim>\<open>session.install\<close> calls of the session come
  before any \<^verbatim>\<open>session.run\<close> call: when a command runs at position \<open>i\<close> of the
  trace, the installs of the trace are its first events, they are the declared
  dependency lists in order, each succeeded, and all stand before \<open>i\<close>.
\<close>

theorem C5_installs_before_tools:
  assumes "(name, body) \<in> set registered"
    and "i < length (trace_of body w)" and "is_run (trace_of body w ! i)"
  shows "length (installs name) \<le> i
       \<and> filter is_install (trace_of body w) = take (length (installs name)) (trace_of body w)
       \<and> map argv (take (length (installs name)) (trace_of body w)) = installs name
       \<and> list_all (\<lambda>e. status e = 0) (take (length (installs name)) (trace_of body w))"
  using registered_follows[OF assms(1), of w] tools_not_pip assms(2,3)
  unfolding plan_def by (rule follows_installs_first)

theorem C5_installs_before_tools_witness:
  "(''docs'', docs) \<in> set registered
   \<and> is_run (trace_of docs ci_world ! 3)
   \<and> map argv (take 2 (trace_of docs ci_world))
       = [[''-e'', ''.''], [''sphinx'', ''alabaster'', ''recommonmark'']]
   \<and> map argv (filter is_install (trace_of docs ci_world))
       = [[''-e'', ''.''], [''sphinx'', ''alabaster'', ''recommonmark'']]"
proof -
  have r: "(''docs'', docs) \<in> set registered"
    by (simp add: registered_def noxfile_def)
  have t: "3 < length (trace_of docs ci_world)" "is_run (trace_of docs ci_world ! 3)"
    by (simp_all add: docs_def exec_defs world_defs)
  have n: "installs ''docs'' = [[''-e'', ''.''], [''sphinx'', ''alabaster'', ''recommonmark'']]"
    by (simp add: installs_def)
  from C5_installs_before_tools[OF r t] r t n show ?thesis by (simp add: numeral_2_eq_2)
qed

text \<open>
  Claim C6, as amended: every session performs an initial part of one fixed sequence of
  calls, in order, and all of it when every command succeeds (for system and snippets
  with credentials set, for system with a target present). The unit session runs py.test
  against \<^verbatim>\<open>tests/unit\<close>, system against \<^verbatim>\<open>tests/system.py\<close> and then
  \<^verbatim>\<open>tests/system\<close>, each when present, snippets against \<^verbatim>\<open>docs/snippets.py\<close> and
  then \<^verbatim>\<open>docs/snippets_table.py\<close>; docs and docfx remove \<^verbatim>\<open>docs/_build\<close> and build
  from \<^verbatim>\<open>docs/\<close> into \<^verbatim>\<open>docs/_build/doctrees/\<close> and \<^verbatim>\<open>docs/_build/html/\<close>.
  The sequences name further paths: \<^verbatim>\<open>.\<close>, \<^verbatim>\<open>test_utils/\<close>, \<^verbatim>\<open>.coveragerc\<close>,
  and in the other four sessions \<^verbatim>\<open>google\<close>, \<^verbatim>\<open>tests\<close>, \<^verbatim>\<open>docs\<close> and
  \<^verbatim>\<open>setup.py\<close>; the py.test command lines end with the positional arguments.
\<close>

theorem C6_session_calls:
  "(map call_of (trace_of unit w) = take (length (trace_of unit w))
      [PipInstall [''mock'', ''pytest'', ''pytest-cov''], PipInstall [''-e'', ''.''],
       Command ([''py.test'', ''--quiet'', ''--cov=google.cloud'', ''--cov=tests.unit'',
                 ''--cov-append'', ''--cov-config=.coveragerc'', ''--cov-report='',
                 ''--cov-fail-under=0'', ''tests/unit''] @ posargs w)]
    \<and> ((\<forall>e \<in> set (trace_of unit w). status e = 0) \<longrightarrow> length (trace_of unit w) = 3))
   \<and> (map call_of (trace_of system w) = take (length (trace_of system w))
      ([PipInstall [''--pre'', ''grpcio''], PipInstall [''mock'', ''pytest''],
        PipInstall [''-e'', ''test_utils/''], PipInstall [''-e'', ''.'']]
       @ (if files w ''tests/system.py''
          then [Command ([''py.test'', ''--quiet'', ''tests/system.py''] @ posargs w)] else [])
       @ (if files w ''tests/system''
          then [Command ([''py.test'', ''--quiet'', ''tests/system''] @ posargs w)] else []))
    \<and> (truthy (environ_get w ''GOOGLE_APPLICATION_CREDENTIALS'' '''')
         \<and> (files w ''tests/system.py'' \<or> files w ''tests/system'')
         \<and> (\<forall>e \<in> set (trace_of system w). status e = 0) \<longrightarrow>
        length (trace_of system w) =
          4 + (if files w ''tests/system.py'' then 1 else 0)
            + (if files w ''tests/system'' then 1 else 0)))
   \<and> (map call_of (trace_of snippets w) = take (length (trace_of snippets w))
      [PipInstall [''mock'', ''pytest''], PipInstall [''-e'', ''test_utils/''],
       PipInstall [''-e'', ''.''],
       Command ([''py.test'', ''--quiet'', ''docs/snippets.py''] @ posargs w),
       Command ([''py.test'', ''--quiet'', ''docs/snippets_table.py''] @ posargs w)]
    \<and> (truthy (environ_get w ''GOOGLE_APPLICATION_CREDENTIALS'' '''')
         \<and> (\<forall>e \<in> set (trace_of snippets w). status e = 0) \<longrightarrow>
        length (trace_of snippets w) = 5))
   \<and> (map call_of (trace_of docs w) = take (length (trace_of docs w))
      [PipInstall [''-e'', ''.''], PipInstall [''sphinx'', ''alabaster'', ''recommonmark''],
       RemoveTree ''docs/_build'',
       Command [''sphinx-build'', ''-W'', ''-T'', ''-N'', ''-b'', ''html'', ''-d'',
                ''docs/_build/doctrees/'', ''docs/'', ''docs/_build/html/'']]
    \<and> ((\<forall>e \<in> set (trace_of docs w). status e = 0) \<longrightarrow> length (trace_of docs w) = 4))
   \<and> (map call_of (trace_of docfx w) = take (length (trace_of docfx w))
      [PipInstall [''-e'', ''.''],
       PipInstall [''sphinx'', ''alabaster'', ''recommonmark'', ''sphinx-docfx-yaml''],
       RemoveTree ''docs/_build'',
       Command [''sphinx-build'', ''-T'', ''-N'', ''-D'',
                ''extensions=sphinx.ext.autodoc,sphinx.ext.autosummary,docfx_yaml.extension,sphinx.ext.intersphinx,sphinx.ext.coverage,sphinx.ext.napoleon,sphinx.ext.todo,sphinx.ext.viewcode,recommonmark'',
                ''-b'', ''html'', ''-d'',
                ''docs/_build/doctrees/'', ''docs/'', ''docs/_build/html/'']]
    \<and> ((\<forall>e \<in> set (trace_of docfx w). status e = 0) \<longrightarrow> length (trace_of docfx w) = 4))
   \<and> (map call_of (trace_of lint w) = take (length (trace_of lint w))
      [PipInstall [''flake8'', ''black''],
       Command [''black'', ''--check'', ''google'', ''tests'', ''docs''],
       Command [''flake8'', ''google'', ''tests'']]
    \<and> ((\<forall>e \<in> set (trace_of lint w). status e = 0) \<longrightarrow> length (trace_of lint w) = 3))
   \<and> (map call_of (trace_of blacken w) = take (length (trace_of blacken w))
      [PipInstall [''black''], Command [''black'', ''google'', ''tests'', ''docs'']]
    \<and> ((\<forall>e \<in> set (trace_of blacken w). status e = 0) \<longrightarrow> length (trace_of blacken w) = 2))
   \<and> (map call_of (trace_of lint_setup_py w) = take (length (trace_of lint_setup_py w))
      [PipInstall [''docutils'', ''pygments''],
       Command [''python'', ''setup.py'', ''check'', ''--restructuredtext'', ''--strict'']]
    \<and> ((\<forall>e \<in> set (trace_of lint_setup_py w). status e = 0) \<longrightarrow>
        length (trace_of lint_setup_py w) = 2))
   \<and> (map call_of (trace_of cover w) = take (length (trace_of cover w))
      [PipInstall [''coverage'', ''pytest-cov''],
       Command [''coverage'', ''report'', ''--show-missing'', ''--fail-under=99''],
       Command [''coverage'', ''erase'']]
    \<and> ((\<forall>e \<in> set (trace_of cover w). status e = 0) \<longrightarrow> length (trace_of cover w) = 3))"
proof -
  have unit: "map call_of (trace_of unit w) = take (length (trace_of unit w))
      [PipInstall [''mock'', ''pytest'', ''pytest-cov''], PipInstall [''-e'', ''.''],
       Command ([''py.test'', ''--quiet'', ''--cov=google.cloud'', ''--cov=tests.unit'',
                 ''--cov-append'', ''--cov-config=.coveragerc'', ''--cov-report='',
                 ''--cov-fail-under=0'', ''tests/unit''] @ posargs w)]
    \<and> ((\<forall>e \<in> set (trace_of unit w). status e = 0) \<longrightarrow> length (trace_of unit w) = 3)"
  proof -
    have "unit w (initial w) = straight (plan ''unit'' w) w (initial w)"
      by (simp add: unit_straight)
    then have "\<forall>m. outcome_of unit w \<noteq> Skipped m"
      using straight_not_skipped[of unit w] by blast
    from account[OF registered_follows[OF registered_unit] this unit_plan] show ?thesis by simp
  qed
  have system: "map call_of (trace_of system w) = take (length (trace_of system w))
      ([PipInstall [''--pre'', ''grpcio''], PipInstall [''mock'', ''pytest''],
        PipInstall [''-e'', ''test_utils/''], PipInstall [''-e'', ''.'']]
       @ (if files w ''tests/system.py''
          then [Command ([''py.test'', ''--quiet'', ''tests/system.py''] @ posargs w)] else [])
       @ (if files w ''tests/system''
          then [Command ([''py.test'', ''--quiet'', ''tests/system''] @ posargs w)] else []))
    \<and> (truthy (environ_get w ''GOOGLE_APPLICATION_CREDENTIALS'' '''')
         \<and> (files w ''tests/system.py'' \<or> files w ''tests/system'')
         \<and> (\<forall>e \<in> set (trace_of system w). status e = 0) \<longrightarrow>
        length (trace_of system w) =
          4 + (if files w ''tests/system.py'' then 1 else 0)
            + (if files w ''tests/system'' then 1 else 0))"
  proof (intro conjI impI)
    from follows_prefix[OF system_follows, of w]
    show "map call_of (trace_of system w) = take (length (trace_of system w))
      ([PipInstall [''--pre'', ''grpcio''], PipInstall [''mock'', ''pytest''],
        PipInstall [''-e'', ''test_utils/''], PipInstall [''-e'', ''.'']]
       @ (if files w ''tests/system.py''
          then [Command ([''py.test'', ''--quiet'', ''tests/system.py''] @ posargs w)] else [])
       @ (if files w ''tests/system''
          then [Command ([''py.test'', ''--quiet'', ''tests/system''] @ posargs w)] else []))"
      by (simp only: system_plan)
  next
    assume h: "truthy (environ_get w ''GOOGLE_APPLICATION_CREDENTIALS'' '''')
         \<and> (files w ''tests/system.py'' \<or> files w ''tests/system'')
         \<and> (\<forall>e \<in> set (trace_of system w). status e = 0)"
    then have "system w (initial w) = straight (plan ''system'' w) w (initial w)"
      by (intro system_go) (simp_all add: truthy_def)
    then have ns: "\<forall>m. outcome_of system w \<noteq> Skipped m"
      using straight_not_skipped[of system w] by blast
    from h have "\<forall>e \<in> set (trace_of system w). status e = 0" by simp
    from follows_complete[OF system_follows ns this]
    show "length (trace_of system w) =
          4 + (if files w ''tests/system.py'' then 1 else 0)
            + (if files w ''tests/system'' then 1 else 0)"
      by (simp add: system_plan)
  qed
  have snippets: "map call_of (trace_of snippets w) = take (length (trace_of snippets w))
      [PipInstall [''mock'', ''pytest''], PipInstall [''-e'', ''test_utils/''],
       PipInstall [''-e'', ''.''],
       Command ([''py.test'', ''--quiet'', ''docs/snippets.py''] @ posargs w),
       Command ([''py.test'', ''--quiet'', ''docs/snippets_table.py''] @ posargs w)]
    \<and> (truthy (environ_get w ''GOOGLE_APPLICATION_CREDENTIALS'' '''')
         \<and> (\<forall>e \<in> set (trace_of snippets w). status e = 0) \<longrightarrow>
        length (trace_of snippets w) = 5)"
  proof (intro conjI impI)
    from follows_prefix[OF snippets_follows, of w]
    show "map call_of (trace_of snippets w) = take (length (trace_of snippets w))
      [PipInstall [''mock'', ''pytest''], PipInstall [''-e'', ''test_utils/''],
       PipInstall [''-e'', ''.''],
       Command ([''py.test'', ''--quiet'', ''docs/snippets.py''] @ posargs w),
       Command ([''py.test'', ''--quiet'', ''docs/snippets_table.py''] @ posargs w)]"
      by (simp only: snippets_plan)
  next
    assume h: "truthy (environ_get w ''GOOGLE_APPLICATION_CREDENTIALS'' '''')
         \<and> (\<forall>e \<in> set (trace_of snippets w). status e = 0)"
    then have "snippets w (initial w) = straight (plan ''snippets'' w) w (initial w)"
      by (simp add: snippets_run truthy_def)
    then have ns: "\<forall>m. outcome_of snippets w \<noteq> Skipped m"
      using straight_not_skipped[of snippets w] by blast
    from h have "\<forall>e \<in> set (trace_of snippets w). status e = 0" by simp
    from follows_complete[OF snippets_follows ns this]
    show "length (trace_of snippets w) = 5" by (simp add: snippets_plan)
  qed
  have docs: "map call_of (trace_of docs w) = take (length (trace_of docs w))
      [PipInstall [''-e'', ''.''], PipInstall [''sphinx'', ''alabaster'', ''recommonmark''],
       RemoveTree ''docs/_build'',
       Command [''sphinx-build'', ''-W'', ''-T'', ''-N'', ''-b'', ''html'', ''-d'',
                ''docs/_build/doctrees/'', ''docs/'', ''docs/_build/html/'']]
    \<and> ((\<forall>e \<in> set (trace_of docs w). status e = 0) \<longrightarrow> length (trace_of docs w) = 4)"
    using account[OF registered_follows[OF registered_docs]
        straight_never_skipped[OF docs_straight] docs_plan, of w] by simp
  have docfx: "map call_of (trace_of docfx w) = take (length (trace_of docfx w))
      [PipInstall [''-e'', ''.''],
       PipInstall [''sphinx'', ''alabaster'', ''recommonmark'', ''sphinx-docfx-yaml''],
       RemoveTree ''docs/_build'',
       Command [''sphinx-build'', ''-T'', ''-N'', ''-D'',
                ''extensions=sphinx.ext.autodoc,sphinx.ext.autosummary,docfx_yaml.extension,sphinx.ext.intersphinx,sphinx.ext.coverage,sphinx.ext.napoleon,sphinx.ext.todo,sphinx.ext.viewcode,recommonmark'',
                ''-b'', ''html'', ''-d'',
                ''docs/_build/doctrees/'', ''docs/'', ''docs/_build/html/'']]
    \<and> ((\<forall>e \<in> set (trace_of docfx w). status e = 0) \<longrightarrow> length (trace_of docfx w) = 4)"
    using account[OF registered_follows[OF registered_docfx]
        straight_never_skipped[OF docfx_straight] docfx_plan, of w] by simp
  have lint: "map call_of (trace_of lint w) = take (length (trace_of lint w))
      [PipInstall [''flake8'', ''black''],
       Command [''black'', ''--check'', ''google'', ''tests'', ''docs''],
       Command [''flake8'', ''google'', ''tests'']]
    \<and> ((\<forall>e \<in> set (trace_of lint w). status e = 0) \<longrightarrow> length (trace_of lint w) = 3)"
    using account[OF registered_follows[OF registered_lint]
        straight_never_skipped[OF lint_straight] lint_plan, of w] by simp
  have blacken: "map call_of (trace_of blacken w) = take (length (trace_of blacken w))
      [PipInstall [''black''], Command [''black'', ''google'', ''tests'', ''docs'']]
    \<and> ((\<forall>e \<in> set (trace_of blacken w). status e = 0) \<longrightarrow> length (trace_of blacken w) = 2)"
    using account[OF registered_follows[OF registered_blacken]
        straight_never_skipped[OF blacken_straight] blacken_plan, of w] by simp
  have lint_setup_py:
    "map call_of (trace_of lint_setup_py w) = take (length (trace_of lint_setup_py w))
      [PipInstall [''docutils'', ''pygments''],
       Command [''python'', ''setup.py'', ''check'', ''--restructuredtext'', ''--strict'']]
    \<and> ((\<forall>e \<in> set (trace_of lint_setup_py w). status e = 0) \<longrightarrow>
        length (trace_of lint_setup_py w) = 2)"
    using account[OF registered_follows[OF registered_lint_setup_py]
        straight_never_skipped[OF lint_setup_py_straight] lint_setup_py_plan, of w] by simp
  have cover: "map call_of (trace_of cover w) = take (length (trace_of cover w))
      [PipInstall [''coverage'', ''pytest-cov''],
       Command [''coverage'', ''report'', ''--show-missing'', ''--fail-under=99''],
       Command [''coverage'', ''erase'']]
    \<and> ((\<forall>e \<in> set (trace_of cover w). status e = 0) \<longrightarrow> length (trace_of cover w) = 3)"
    using account[OF registered_follows[OF registered_cover]
        straight_never_skipped[OF cover_straight] cover_plan, of w] by simp
  show ?thesis
    by (rule conjI[OF unit conjI[OF system conjI[OF snippets conjI[OF docs conjI[OF docfx
          conjI[OF lint conjI[OF blacken conjI[OF lint_setup_py cover]]]]]]]])
qed

theorem C6_session_calls_witness:
  "truthy (environ_get ci_world ''GOOGLE_APPLICATION_CREDENTIALS'' '''')
   \<and> list_all (\<lambda>e. status e = 0) (trace_of snippets ci_world)
   \<and> map call_of (trace_of snippets ci_world) =
       [PipInstall [''mock'', ''pytest''], PipInstall [''-e'', ''test_utils/''],
        PipInstall [''-e'', ''.''],
        Command [''py.test'', ''--quiet'', ''docs/snippets.py''],
        Command [''py.test'', ''--quiet'', ''docs/snippets_table.py'']]
   \<and> list_all (\<lambda>e. status e = 0) (trace_of docfx ci_world)
   \<and> length (trace_of docfx ci_world) = 4
   \<and> call_of (trace_of docfx ci_world ! 2) = RemoveTree ''docs/_build''"
proof -
  have h: "truthy (environ_get ci_world ''GOOGLE_APPLICATION_CREDENTIALS'' '''')"
    "list_all (\<lambda>e. status e = 0) (trace_of snippets ci_world)"
    "list_all (\<lambda>e. status e = 0) (trace_of docfx ci_world)"
    "posargs ci_world = []"
    by (simp_all add: snippets_def docfx_def exec_defs world_defs)
  from h(2,3) have z: "\<forall>e \<in> set (trace_of snippets ci_world). status e = 0"
    "\<forall>e \<in> set (trace_of docfx ci_world). status e = 0"
    by (simp_all only: list_all_iff)
  note c = C6_session_calls[of ci_world]
  from c h(1) z(1) have s: "length (trace_of snippets ci_world) = 5" by blast
  from c have "map call_of (trace_of snippets ci_world) = take (length (trace_of snippets ci_world))
       [PipInstall [''mock'', ''pytest''], PipInstall [''-e'', ''test_utils/''],
        PipInstall [''-e'', ''.''],
        Command ([''py.test'', ''--quiet'', ''docs/snippets.py''] @ posargs ci_world),
        Command ([''py.test'', ''--quiet'', ''docs/snippets_table.py''] @ posargs ci_world)]"
    by blast
  with s h(4) have sn: "map call_of (trace_of snippets ci_world) =
       [PipInstall [''mock'', ''pytest''], PipInstall [''-e'', ''test_utils/''],
        PipInstall [''-e'', ''.''],
        Command [''py.test'', ''--quiet'', ''docs/snippets.py''],
        Command [''py.test'', ''--quiet'', ''docs/snippets_table.py'']]"
    by simp
  from c z(2) have d: "length (trace_of docfx ci_world) = 4" by blast
  from c have "map call_of (trace_of docfx ci_world) ! 2 =
      take (length (trace_of docfx ci_world))
       [PipInstall [''-e'', ''.''],
        PipInstall [''sphinx'', ''alabaster'', ''recommonmark'', ''sphinx-docfx-yaml''],
        RemoveTree ''docs/_build'',
        Command [''sphinx-build'', ''-T'', ''-N'', ''-D'',
                ''extensions=sphinx.ext.autodoc,sphinx.ext.autosummary,docfx_yaml.extension,sphinx.ext.intersphinx,sphinx.ext.coverage,sphinx.ext.napoleon,sphinx.ext.todo,sphinx.ext.viewcode,recommonmark'',
                ''-b'', ''html'', ''-d'',
                ''docs/_build/doctrees/'', ''docs/'', ''docs/_build/html/'']] ! 2"
    by simp
  with d have r: "call_of (trace_of docfx ci_world ! 2) = RemoveTree ''docs/_build''" by simp
  from h(1,2,3) sn d r show ?thesis by (intro conjI)
qed

text \<open>
  Claim C6 as stated fails: the sessions name paths that are not among those the spec
  lists.
\<close>

theorem C6_counterexample:
  "call_of (trace_of unit ci_world ! 1) = PipInstall [''-e'', ''.'']
   \<and> argv (trace_of unit ci_world ! 2) ! 5 = ''--cov-config=.coveragerc''
   \<and> call_of (trace_of system ci_world ! 2) = PipInstall [''-e'', ''test_utils/'']
   \<and> argv (trace_of docs ci_world ! 3) ! 8 = ''docs/''
   \<and> call_of (trace_of lint ci_world ! 1)
       = Command [''black'', ''--check'', ''google'', ''tests'', ''docs'']
   \<and> call_of (trace_of lint_setup_py ci_world ! 1)
       = Command [''python'', ''setup.py'', ''check'', ''--restructuredtext'', ''--strict'']"
  by (simp add: unit_def default_session_def system_def docs_def lint_def lint_setup_py_def
      exec_defs world_defs)

text \<open>
  Claim C7: the sessions the file registers are exactly lint, blacken, lint_setup_py,
  unit, cover, system, snippets, docs and docfx; the helper \<^verbatim>\<open>default\<close> is defined
  and not registered.
\<close>

theorem C7_registered_sessions:
  "set session_names = {''lint'', ''blacken'', ''lint_setup_py'', ''unit'', ''cover'',
     ''system'', ''snippets'', ''docs'', ''docfx''}
   \<and> distinct session_names \<and> length session_names = 9
   \<and> ''default'' \<in> set (map fst noxfile) \<and> ''default'' \<notin> set session_names"
  by (simp add: session_names_def registered_def noxfile_def)

text \<open>
  Claim C8, as amended: in the system session with credentials set, tests found and
  every install succeeding, py.test runs on \<^verbatim>\<open>tests/system.py\<close> exactly when the file
  exists, and on \<^verbatim>\<open>tests/system\<close> exactly when the directory exists and the run on the
  file, the fifth event of the trace when there is one, exited with status 0; with both
  present and the file run passing there are exactly two runs, file first.
\<close>

theorem C8_system_targets:
  assumes creds: "truthy (environ_get w ''GOOGLE_APPLICATION_CREDENTIALS'' '''')"
    and found: "files w ''tests/system.py'' \<or> files w ''tests/system''"
    and inst: "\<forall>e \<in> set (trace_of system w). is_install e \<longrightarrow> status e = 0"
  shows "map argv (filter is_run (trace_of system w)) =
      (if files w ''tests/system.py''
       then [[''py.test'', ''--quiet'', ''tests/system.py''] @ posargs w] else [])
      @ (if files w ''tests/system''
           \<and> (files w ''tests/system.py'' \<longrightarrow> status (trace_of system w ! 4) = 0)
         then [[''py.test'', ''--quiet'', ''tests/system''] @ posargs w] else [])"
proof -
  let ?T = "trace_of system w"
  let ?F = "[''py.test'', ''--quiet'', ''tests/system.py''] @ posargs w"
  let ?D = "[''py.test'', ''--quiet'', ''tests/system''] @ posargs w"
  from creds found have run: "system w (initial w) = straight (plan ''system'' w) w (initial w)"
    by (intro system_go) (simp_all add: truthy_def)
  have ns: "\<forall>m. outcome_of system w \<noteq> Skipped m"
    using straight_not_skipped[of system w, OF run] by blast
  have fp: "follows (plan ''system'' w) (outcome_of system w) ?T" by (rule system_follows)
  then have f: "follows (map PipInstall (installs ''system'') @ tools ''system'' w)
      (outcome_of system w) ?T" by (simp add: plan_def)
  have len: "length ?T \<le> length (plan ''system'' w)" using follows_prefix[OF fp] by simp
  have runs: "map Command (map argv (filter is_run ?T))
      = filter is_command (take (length ?T) (plan ''system'' w))"
    using fp by (rule runs_of_trace)
  from found have k0: "0 < length (tools ''system'' w)" by (auto simp: tools_def)
  from follows_tool[OF f ns k0 inst] have l4: "4 < length ?T" by (simp add: system_installs)
  show ?thesis
  proof (cases "files w ''tests/system.py''")
    case fe: True
    show ?thesis
    proof (cases "files w ''tests/system''")
      case de: True
      show ?thesis
      proof (cases "status (?T ! 4) = 0")
        case True
        have k1: "1 < length (tools ''system'' w)" using fe de by (simp add: tools_def)
        have prev: "\<forall>i < 1. length (installs ''system'') + i < length ?T
            \<longrightarrow> status (?T ! (length (installs ''system'') + i)) = 0"
          using True by (simp add: system_installs)
        from follows_tool[OF f ns k1 inst prev] have "5 < length ?T"
          by (simp add: system_installs)
        with len fe de have "length ?T = 6" by (simp add: system_plan)
        with runs fe de have "map Command (map argv (filter is_run ?T)) = [Command ?F, Command ?D]"
          by (simp add: system_plan)
        from commands_eq2[OF this] fe de True show ?thesis by simp
      next
        case False
        from follows_fail_fast[OF fp l4 False] have "length ?T = 5" by simp
        with runs fe de have "map Command (map argv (filter is_run ?T)) = [Command ?F]"
          by (simp add: system_plan)
        from commands_eq1[OF this] fe de False show ?thesis by simp
      qed
    next
      case nde: False
      from len l4 fe nde have "length ?T = 5" by (simp add: system_plan)
      with runs fe nde have "map Command (map argv (filter is_run ?T)) = [Command ?F]"
        by (simp add: system_plan)
      from commands_eq1[OF this] fe nde show ?thesis by simp
    qed
  next
    case nfe: False
    with found have de: "files w ''tests/system''" by simp
    from len l4 nfe de have "length ?T = 5" by (simp add: system_plan)
    with runs nfe de have "map Command (map argv (filter is_run ?T)) = [Command ?D]"
      by (simp add: system_plan)
    from commands_eq1[OF this] nfe de show ?thesis by simp
  qed
qed

theorem C8_system_targets_witness:
  "truthy (environ_get ci_world ''GOOGLE_APPLICATION_CREDENTIALS'' '''')
   \<and> files ci_world ''tests/system.py'' \<and> files ci_world ''tests/system''
   \<and> list_all (\<lambda>e. is_install e \<longrightarrow> status e = 0) (trace_of system ci_world)
   \<and> status (trace_of system ci_world ! 4) = 0
   \<and> map argv (filter is_run (trace_of system ci_world)) =
       [[''py.test'', ''--quiet'', ''tests/system.py''], [''py.test'', ''--quiet'', ''tests/system'']]"
proof -
  have h: "truthy (environ_get ci_world ''GOOGLE_APPLICATION_CREDENTIALS'' '''')"
    "files ci_world ''tests/system.py''" "files ci_world ''tests/system''"
    "list_all (\<lambda>e. is_install e \<longrightarrow> status e = 0) (trace_of system ci_world)"
    "status (trace_of system ci_world ! 4) = 0" "posargs ci_world = []"
    by (simp_all add: system_def exec_defs world_defs)
  from h(4) have i: "\<forall>e \<in> set (trace_of system ci_world). is_install e \<longrightarrow> status e = 0"
    by (simp add: list_all_iff)
  from h(2) have "files ci_world ''tests/system.py'' \<or> files ci_world ''tests/system''" by simp
  from C8_system_targets[OF h(1) this i] h show ?thesis by simp
qed

text \<open>
  Claim C8 as stated fails: with both targets present, a failing py.test run on the file
  ends the session, and py.test is never invoked on the directory.
\<close>

theorem C8_counterexample:
  "truthy (environ_get failing_tests ''GOOGLE_APPLICATION_CREDENTIALS'' '''')
   \<and> files failing_tests ''tests/system.py'' \<and> files failing_tests ''tests/system''
   \<and> map argv (filter is_run (trace_of system failing_tests))
       = [[''py.test'', ''--quiet'', ''tests/system.py'']]
   \<and> outcome_of system failing_tests = Failed"
  by (simp add: system_def exec_defs world_defs)




text \<open>
  Claim C10: the system and snippets sessions cannot tell an empty
  \<^verbatim>\<open>GOOGLE_APPLICATION_CREDENTIALS\<close> from an unset one: both runs end in the same
  state, skipped with an empty trace.
\<close>

theorem C10_empty_is_unset:
  "system (w\<lparr>environ := (environ w)(''GOOGLE_APPLICATION_CREDENTIALS'' \<mapsto> '''')\<rparr>)
      (initial (w\<lparr>environ := (environ w)(''GOOGLE_APPLICATION_CREDENTIALS'' \<mapsto> '''')\<rparr>))
   = system (w\<lparr>environ := (environ w)(''GOOGLE_APPLICATION_CREDENTIALS'' := None)\<rparr>)
      (initial (w\<lparr>environ := (environ w)(''GOOGLE_APPLICATION_CREDENTIALS'' := None)\<rparr>))
   \<and> snippets (w\<lparr>environ := (environ w)(''GOOGLE_APPLICATION_CREDENTIALS'' \<mapsto> '''')\<rparr>)
      (initial (w\<lparr>environ := (environ w)(''GOOGLE_APPLICATION_CREDENTIALS'' \<mapsto> '''')\<rparr>))
   = snippets (w\<lparr>environ := (environ w)(''GOOGLE_APPLICATION_CREDENTIALS'' := None)\<rparr>)
      (initial (w\<lparr>environ := (environ w)(''GOOGLE_APPLICATION_CREDENTIALS'' := None)\<rparr>))
   \<and> outcome_of system (w\<lparr>environ := (environ w)(''GOOGLE_APPLICATION_CREDENTIALS'' \<mapsto> '''')\<rparr>)
     = Skipped ''Credentials must be set via environment variable''
   \<and> outcome_of system (w\<lparr>environ := (environ w)(''GOOGLE_APPLICATION_CREDENTIALS'' := None)\<rparr>)
     = Skipped ''Credentials must be set via environment variable''
   \<and> outcome_of snippets (w\<lparr>environ := (environ w)(''GOOGLE_APPLICATION_CREDENTIALS'' \<mapsto> '''')\<rparr>)
     = Skipped ''Credentials must be set via environment variable.''
   \<and> outcome_of snippets (w\<lparr>environ := (environ w)(''GOOGLE_APPLICATION_CREDENTIALS'' := None)\<rparr>)
     = Skipped ''Credentials must be set via environment variable.''"
  by (simp add: system_def snippets_def exec_defs)

end
